theory Spec2Isabelle
  imports Main
begin

section \<open>Data model of \<open>src/app/routes/app.products.tsx\<close>\<close>

text \<open>
  The TypeScript types of lines 9-49, one record per object type. A field that may be
  absent or \<open>null\<close> is an \<open>option\<close>; the source reads \<open>endCursor\<close> only through
  \<open>?? null\<close> and through its truthiness, neither of which tells \<open>undefined\<close> from
  \<open>null\<close>, so both are \<open>None\<close>.
\<close>

record image_ref =
  url :: string
  altText :: "string option"

record media_preview =
  preview_image :: "image_ref option"

record featured_media =
  preview :: "media_preview option"
  media_image :: "image_ref option"

record product_summary =
  product_id :: string
  title :: string
  status :: string
  featuredMedia :: "featured_media option"

record product_edge =
  cursor :: string
  node :: product_summary

record page_info =
  hasNextPage :: bool
  endCursor :: "string option"

record product_connection =
  edges :: "product_edge list"
  pageInfo :: page_info

record loader_data =
  products :: product_connection

text \<open>
  What \<open>response.json()\<close> yields is cast to \<open>ProductsQuery\<close> without a check
  (line 100), so the connection inside a payload is kept with every field optional.
\<close>

record raw_connection =
  raw_edges :: "product_edge list option"
  raw_pageInfo :: "page_info option"

record query_data =
  query_products :: "raw_connection option"

text \<open>
  An entry of \<open>errors\<close> may be \<open>null\<close> and may lack its \<open>message\<close>: line 104 reads
  it as \<open>payload.errors[0]?.message ?? ...\<close>.
\<close>

record query_error =
  message :: "string option"

record products_query =
  data :: "query_data option"
  errors :: "query_error option list option"

record variables =
  first :: nat
  after :: "string option"

datatype response = Response string nat

datatype js_error = TypeError

text \<open>What the loader throws: the \<open>Response\<close> of lines 103 and 112, or a JavaScript error.\<close>

datatype thrown = ThrownResponse response | ThrownError js_error

definition PAGE_SIZE :: nat where
  "PAGE_SIZE = 9"

text \<open>JavaScript truthiness of a \<open>string | null | undefined\<close>: the empty string is falsy.\<close>

fun truthy :: "string option \<Rightarrow> bool" where
  "truthy None = False"
| "truthy (Some c) = (c \<noteq> [])"

section \<open>The loader (lines 51-118)\<close>

text \<open>
  Lines 54-62. The argument is the result of \<open>url.searchParams.get("after")\<close>
  (\<open>None\<close> for \<open>null\<close>); \<open>|| undefined\<close> turns a falsy one into \<open>undefined\<close>.
\<close>

definition loader_variables :: "string option \<Rightarrow> variables" where
  "loader_variables param =
     (let after_arg = (if truthy param then param else None);
          vars = \<lparr>first = PAGE_SIZE, after = None\<rparr>
      in if truthy after_arg then vars\<lparr>after := after_arg\<rparr> else vars)"

text \<open>Line 109: \<open>payload.data?.products\<close>.\<close>

definition payload_products :: "products_query \<Rightarrow> raw_connection option" where
  "payload_products payload =
     (case data payload of None \<Rightarrow> None | Some d \<Rightarrow> query_products d)"

text \<open>
  Lines 100-117, on the body \<open>response.json()\<close> resolved to; \<open>None\<close> is the body
  \<open>null\<close>, on which \<open>payload.errors\<close> of line 102 throws. A throw is the \<open>Inl\<close>
  branch. The loader returns the connection as the payload has it; none of its fields is
  looked at.
\<close>

definition loader_result :: "products_query option \<Rightarrow> thrown + raw_connection" where
  "loader_result body =
     (case body of
        None \<Rightarrow> Inl (ThrownError TypeError)
      | Some payload \<Rightarrow>
          if (case errors payload of None \<Rightarrow> False | Some es \<Rightarrow> length es \<noteq> 0)
          then Inl (ThrownResponse (Response
                 (case errors payload of
                    Some (Some e # es) \<Rightarrow>
                      (case message e of Some m \<Rightarrow> m | None \<Rightarrow> ''Failed to load products'')
                  | _ \<Rightarrow> ''Failed to load products'') 500))
          else (case payload_products payload of
                  None \<Rightarrow> Inl (ThrownResponse (Response ''No data returned from Shopify'' 502))
                | Some prods \<Rightarrow> Inr prods))"

section \<open>The component \<open>ProductsPage\<close> (lines 120-179)\<close>

text \<open>
  \<open>fetcher.state\<close> and \<open>fetcher.data\<close> belong to the router's fetcher; the component
  only reads them and calls \<open>fetcher.load\<close>. \<open>fetcher_loads\<close> is the log of those calls:
  the cursor \<open>c\<close> of each \<open>fetcher.load(`?after=${encodeURIComponent(c)}`)\<close>, oldest first.
\<close>

datatype fetcher_status = Idle | Loading | Submitting

record page_state =
  cur_edges :: "product_edge list"
  cur_pageInfo :: page_info
  lastAppendedCursor :: "string option"
  fetcher_state :: fetcher_status
  fetcher_data :: "loader_data option"
  fetcher_loads :: "string list"

text \<open>Lines 121-126: the state of the first render, before any effect has run.\<close>

definition mount :: "product_connection \<Rightarrow> page_state" where
  "mount prods =
     \<lparr>cur_edges = edges prods, cur_pageInfo = pageInfo prods, lastAppendedCursor = None,
      fetcher_state = Idle, fetcher_data = None, fetcher_loads = []\<rparr>"

text \<open>Lines 128-132: the effect that runs when the loader data \<open>products\<close> changes.\<close>

definition seed :: "product_connection \<Rightarrow> page_state \<Rightarrow> page_state" where
  "seed prods s =
     s\<lparr>cur_edges := edges prods, cur_pageInfo := pageInfo prods,
       lastAppendedCursor := endCursor (pageInfo prods)\<rparr>"

text \<open>Lines 134-144: the effect that runs when \<open>fetcher.data\<close> changes.\<close>

definition merge_effect :: "page_state \<Rightarrow> page_state" where
  "merge_effect s =
     (case fetcher_data s of
        None \<Rightarrow> s
      | Some d \<Rightarrow>
          (let incoming = products d; nextCursor = endCursor (pageInfo incoming)
           in if lastAppendedCursor s = nextCursor then s
              else s\<lparr>cur_edges := cur_edges s @ edges incoming,
                     cur_pageInfo := pageInfo incoming,
                     lastAppendedCursor := nextCursor\<rparr>))"

text \<open>
  Lines 146-149: the effect installs an observer unless it returns early. The sentinel
  \<open>div\<close> of line 250 is rendered unconditionally, so \<open>sentinelRef.current\<close> is set.
\<close>

definition observer_installed :: "page_state \<Rightarrow> bool" where
  "observer_installed s =
     (\<not> (\<not> hasNextPage (cur_pageInfo s) \<or> \<not> truthy (endCursor (cur_pageInfo s))))"

text \<open>The router's \<open>fetcher.load\<close>: the fetcher leaves \<open>idle\<close> and the call is logged.\<close>

definition fetcher_load :: "string \<Rightarrow> page_state \<Rightarrow> page_state" where
  "fetcher_load c s = s\<lparr>fetcher_state := Loading, fetcher_loads := fetcher_loads s @ [c]\<rparr>"

text \<open>
  What the callback of lines 152-164 closes over: \<open>fetcher\<close> and \<open>pageInfo\<close> are the
  constants of the render whose effect installed the observer, and the callback reads
  \<open>fetcher.state\<close>, \<open>pageInfo.hasNextPage\<close> and \<open>pageInfo.endCursor\<close> of those.
\<close>

record captured =
  captured_state :: fetcher_status
  captured_pageInfo :: page_info

definition capture :: "page_state \<Rightarrow> captured" where
  "capture s = \<lparr>captured_state = fetcher_state s, captured_pageInfo = cur_pageInfo s\<rparr>"

text \<open>
  Lines 152-164: the observer's callback, with \<open>entry.isIntersecting\<close> and the captured
  values as arguments. The guard tests the captured values; \<open>fetcher.load\<close> acts on the
  state the component has when the callback runs.
\<close>

definition observer_callback :: "bool \<Rightarrow> captured \<Rightarrow> page_state \<Rightarrow> page_state" where
  "observer_callback isIntersecting k s =
     (if isIntersecting \<and> captured_state k = Idle \<and> hasNextPage (captured_pageInfo k)
         \<and> truthy (endCursor (captured_pageInfo k))
      then (case endCursor (captured_pageInfo k) of Some c \<Rightarrow> fetcher_load c s | None \<Rightarrow> s)
      else s)"

text \<open>
  The router settles a load whose loader returned: the fetcher is \<open>idle\<close> again and
  \<open>fetcher.data\<close> is what the loader returned.
\<close>

definition fetcher_settled :: "loader_data option \<Rightarrow> page_state \<Rightarrow> page_state" where
  "fetcher_settled d s = s\<lparr>fetcher_state := Idle, fetcher_data := d\<rparr>"

section \<open>The controller's operations, as compositions of the above\<close>

text \<open>
  The sentinel enters the viewport of a component that has rendered its state \<open>s\<close>: the
  observer, if there is one, is the one that render installed.
\<close>

definition onSentinelVisible :: "page_state \<Rightarrow> page_state" where
  "onSentinelVisible s =
     (if observer_installed s then observer_callback True (capture s) s else s)"

text \<open>A load resolves with a page: the fetcher settles, then the merge effect runs.\<close>

definition onPageArrived :: "product_connection \<Rightarrow> page_state \<Rightarrow> page_state" where
  "onPageArrived page s = merge_effect (fetcher_settled (Some \<lparr>products = page\<rparr>) s)"

text \<open>Pages arriving one after the other, first page first.\<close>

fun arrive_all :: "product_connection list \<Rightarrow> page_state \<Rightarrow> page_state" where
  "arrive_all [] s = s"
| "arrive_all (p # ps) s = arrive_all ps (onPageArrived p s)"

text \<open>
  The component between renders: its state, and the values captured by the observer that
  is installed, \<open>None\<close> when there is none. The observer stays as it is until the effect
  of lines 146-179 runs again.
\<close>

record component =
  current :: page_state
  observer :: "captured option"

text \<open>
  A render and its effect of lines 146-179: the cleanup disconnects the old observer, and
  a new one is installed unless the effect returns early. (The effect is skipped when
  none of its dependencies has changed; the observer it would install captures the same
  values as the one that stays.)
\<close>

definition render :: "component \<Rightarrow> component" where
  "render c =
     c\<lparr>observer := (if observer_installed (current c) then Some (capture (current c)) else None)\<rparr>"

text \<open>The component after its first render, with its seed effect and observer effect run.\<close>

definition mounted :: "product_connection \<Rightarrow> component" where
  "mounted p = render \<lparr>current = seed p (mount p), observer = None\<rparr>"








text \<open>Every page of the list passes the guard of line 139 when it arrives.\<close>

fun all_merged :: "product_connection list \<Rightarrow> page_state \<Rightarrow> bool" where
  "all_merged [] s = True"
| "all_merged (p # ps) s =
     (lastAppendedCursor s \<noteq> endCursor (pageInfo p) \<and> all_merged ps (onPageArrived p s))"

definition item_ids :: "product_edge list \<Rightarrow> string list" where
  "item_ids es = map (\<lambda>e. product_id (node e)) es"

text \<open>
  The merge effect on a page as it comes off the wire. Line 138 reads
  \<open>incoming.pageInfo.endCursor\<close> and throws when \<open>pageInfo\<close> is missing. Lines 141-142
  enqueue the two state updates and line 143 assigns the ref at once; the updater of
  line 141 spreads \<open>incoming.edges\<close> when the next render applies it, and throws there
  when \<open>edges\<close> is missing, before the update of \<open>pageInfo\<close> is applied. A throw is
  \<open>Inl\<close>, with the state as the throw leaves it.
\<close>

definition merge_effect_raw ::
  "raw_connection option \<Rightarrow> page_state \<Rightarrow> (js_error \<times> page_state) + page_state" where
  "merge_effect_raw incoming s =
     (case incoming of
        None \<Rightarrow> Inr s
      | Some inc \<Rightarrow>
          (case raw_pageInfo inc of
             None \<Rightarrow> Inl (TypeError, s)
           | Some pinfo \<Rightarrow>
               (let nextCursor = endCursor pinfo
                in if lastAppendedCursor s = nextCursor then Inr s
                   else (case raw_edges inc of
                           None \<Rightarrow> Inl (TypeError, s\<lparr>lastAppendedCursor := nextCursor\<rparr>)
                         | Some es \<Rightarrow>
                             Inr (s\<lparr>cur_edges := cur_edges s @ es, cur_pageInfo := pinfo,
                                    lastAppendedCursor := nextCursor\<rparr>)))))"

definition raw_of :: "product_connection \<Rightarrow> raw_connection" where
  "raw_of c = \<lparr>raw_edges = Some (edges c), raw_pageInfo = Some (pageInfo c)\<rparr>"

section \<open>Example data\<close>

definition item :: "string \<Rightarrow> product_edge" where
  "item i =
     \<lparr>cursor = i, node = \<lparr>product_id = i, title = i, status = ''ACTIVE'', featuredMedia = None\<rparr>\<rparr>"

definition page :: "product_edge list \<Rightarrow> bool \<Rightarrow> string option \<Rightarrow> product_connection" where
  "page es hasMore c = \<lparr>edges = es, pageInfo = \<lparr>hasNextPage = hasMore, endCursor = c\<rparr>\<rparr>"

text \<open>The state once the component is mounted on a first page and its seed effect has run.\<close>

definition fresh :: "product_connection \<Rightarrow> page_state" where
  "fresh p = seed p (mount p)"

section \<open>Basic facts about the operations\<close>

lemma onPageArrived_edges:
  "cur_edges (onPageArrived p s) =
     cur_edges s @ (if lastAppendedCursor s = endCursor (pageInfo p) then [] else edges p)"
  by (simp add: onPageArrived_def merge_effect_def fetcher_settled_def Let_def)

lemma onPageArrived_pageInfo:
  "cur_pageInfo (onPageArrived p s) =
     (if lastAppendedCursor s = endCursor (pageInfo p) then cur_pageInfo s else pageInfo p)"
  by (simp add: onPageArrived_def merge_effect_def fetcher_settled_def Let_def)

lemma onPageArrived_last:
  "lastAppendedCursor (onPageArrived p s) = endCursor (pageInfo p)"
  by (simp add: onPageArrived_def merge_effect_def fetcher_settled_def Let_def)

lemma onPageArrived_fetcher:
  "fetcher_state (onPageArrived p s) = Idle"
  "fetcher_loads (onPageArrived p s) = fetcher_loads s"
  by (simp_all add: onPageArrived_def merge_effect_def fetcher_settled_def Let_def)

lemma seed_fields:
  "cur_edges (seed p s) = edges p"
  "cur_pageInfo (seed p s) = pageInfo p"
  "lastAppendedCursor (seed p s) = endCursor (pageInfo p)"
  "fetcher_state (seed p s) = fetcher_state s"
  "fetcher_data (seed p s) = fetcher_data s"
  "fetcher_loads (seed p s) = fetcher_loads s"
  by (simp_all add: seed_def)

lemma arrive_all_edges:
  "all_merged ps s \<Longrightarrow> cur_edges (arrive_all ps s) = cur_edges s @ concat (map edges ps)"
proof (induction ps arbitrary: s)
  case Nil
  show ?case by simp
next
  case (Cons p ps)
  from Cons.prems have guard: "lastAppendedCursor s \<noteq> endCursor (pageInfo p)"
    and rest: "all_merged ps (onPageArrived p s)"
    by simp_all
  from Cons.IH [OF rest] guard show ?case
    by (simp add: onPageArrived_edges)
qed

lemmas example_defs =
  fresh_def mount_def seed_def merge_effect_def fetcher_settled_def onPageArrived_def
  observer_installed_def observer_callback_def capture_def fetcher_load_def
  onSentinelVisible_def render_def mounted_def page_def item_def item_ids_def Let_def

section \<open>The claims\<close>

text \<open>
  C1, as the specification states it: after a seed followed by successful merges the
  items list holds no identifier twice, even when two pages share an item. The merge
  effect appends the incoming edges as they are (line 141), so this fails: the seed page
  \<open>[a, b]\<close> followed by the page \<open>[b, c]\<close>, which passes the guard of line 139, gives
  \<open>[a, b, b, c]\<close>.
\<close>

theorem no_duplicate_items_counterexample:
  "all_merged [page [item ''b'', item ''c''] True (Some ''c2'')]
     (fresh (page [item ''a'', item ''b''] True (Some ''c1'')))
   \<and> item_ids (cur_edges (arrive_all [page [item ''b'', item ''c''] True (Some ''c2'')]
        (fresh (page [item ''a'', item ''b''] True (Some ''c1''))))) = [''a'', ''b'', ''b'', ''c'']
   \<and> \<not> distinct (item_ids (cur_edges (arrive_all [page [item ''b'', item ''c''] True (Some ''c2'')]
        (fresh (page [item ''a'', item ''b''] True (Some ''c1''))))))"
  by (simp add: example_defs)

text \<open>
  C1, amended: after a seed followed by successful merges, the items list holds no
  identifier twice exactly when no identifier occurs twice among the items of the seed
  page and of the merged pages, taken together; nothing is skipped by the merge.
\<close>

theorem no_duplicate_items_amended:
  assumes "all_merged ps (seed p0 s)"
  shows "distinct (item_ids (cur_edges (arrive_all ps (seed p0 s)))) =
         distinct (item_ids (concat (map edges (p0 # ps))))"
  using arrive_all_edges [OF assms] by (simp add: seed_fields)

theorem no_duplicate_items_amended_witness:
  "all_merged [page [item ''c'', item ''d''] True (Some ''c2'')]
     (seed (page [item ''a'', item ''b''] True (Some ''c1'')) (mount (page [] False None)))
   \<and> distinct (item_ids (cur_edges (arrive_all [page [item ''c'', item ''d''] True (Some ''c2'')]
        (seed (page [item ''a'', item ''b''] True (Some ''c1'')) (mount (page [] False None))))))"
proof -
  have h: "all_merged [page [item ''c'', item ''d''] True (Some ''c2'')]
     (seed (page [item ''a'', item ''b''] True (Some ''c1'')) (mount (page [] False None)))"
    by (simp add: example_defs)
  show ?thesis
    using h no_duplicate_items_amended [OF h] by (simp add: page_def item_def item_ids_def)
qed

text \<open>
  C2: a page whose \<open>endCursor\<close> equals \<open>lastAppendedCursor\<close> changes neither the items
  nor \<open>hasNextPage\<close> nor the cursor (nor the ref, nor the log of loads); the fetcher is
  idle afterwards. In particular, after a seed with \<open>[a, b]\<close> and cursor \<open>c1\<close>, the page
  \<open>[c, d]\<close> with cursor \<open>c2\<close> delivered twice leaves \<open>[a, b, c, d]\<close>.
\<close>

theorem duplicate_delivery_guard:
  "(endCursor (pageInfo p) = lastAppendedCursor s \<longrightarrow>
      cur_edges (onPageArrived p s) = cur_edges s
      \<and> cur_pageInfo (onPageArrived p s) = cur_pageInfo s
      \<and> lastAppendedCursor (onPageArrived p s) = lastAppendedCursor s
      \<and> fetcher_loads (onPageArrived p s) = fetcher_loads s
      \<and> fetcher_state (onPageArrived p s) = Idle)
   \<and> cur_edges (onPageArrived (page [c, d] True (Some ''c2''))
        (onPageArrived (page [c, d] True (Some ''c2''))
          (seed (page [a, b] True (Some ''c1'')) s0))) = [a, b, c, d]"
  by (simp add: onPageArrived_edges onPageArrived_pageInfo onPageArrived_last
      onPageArrived_fetcher seed_fields page_def)

theorem duplicate_delivery_guard_witness:
  "endCursor (pageInfo (page [item ''c'', item ''d''] True (Some ''c2''))) =
     lastAppendedCursor (onPageArrived (page [item ''c'', item ''d''] True (Some ''c2''))
        (fresh (page [item ''a'', item ''b''] True (Some ''c1''))))
   \<and> cur_edges (onPageArrived (page [item ''c'', item ''d''] True (Some ''c2''))
        (onPageArrived (page [item ''c'', item ''d''] True (Some ''c2''))
          (fresh (page [item ''a'', item ''b''] True (Some ''c1''))))) =
      [item ''a'', item ''b'', item ''c'', item ''d'']"
  using duplicate_delivery_guard
    [where p = "page [item ''c'', item ''d''] True (Some ''c2'')"
       and s = "onPageArrived (page [item ''c'', item ''d''] True (Some ''c2''))
                  (fresh (page [item ''a'', item ''b''] True (Some ''c1'')))"
       and a = "item ''a''" and b = "item ''b''" and c = "item ''c''" and d = "item ''d''"
       and ?s0.0 = "mount (page [item ''a'', item ''b''] True (Some ''c1''))"]
  by (simp add: example_defs)

text \<open>
  C3, as the specification states it: \<open>seed(P1)\<close> then \<open>seed(P2)\<close> on any state gives the
  state of \<open>seed(P2)\<close> alone on a fresh state, with an idle fetcher. The seed effect
  (lines 128-132) writes the edges, the page info and the ref only; a load started
  before the two seeds is still in flight after them.
\<close>

theorem reseed_counterexample:
  "fetcher_state (seed (page [item ''y''] False None) (seed (page [item ''x''] True (Some ''d1''))
      (onSentinelVisible (fresh (page [item ''a''] True (Some ''c1'')))))) = Loading
   \<and> seed (page [item ''y''] False None) (seed (page [item ''x''] True (Some ''d1''))
      (onSentinelVisible (fresh (page [item ''a''] True (Some ''c1'')))))
     \<noteq> fresh (page [item ''y''] False None)"
  by (simp add: example_defs)

text \<open>
  C3, amended: \<open>seed(P1)\<close> then \<open>seed(P2)\<close> on any state gives the state of \<open>seed(P2)\<close>
  alone on that state: the items are those of \<open>P2\<close> (none of \<open>P1\<close> survives),
  \<open>hasNextPage\<close> and the cursor are those of \<open>P2\<close> and the ref is the \<open>endCursor\<close> of
  \<open>P2\<close>. The fetcher is left as it was, so the result is the freshly mounted and seeded
  state exactly when the fetcher was idle, without data and never asked to load.
\<close>

theorem reseed_amended:
  "seed p2 (seed p1 s) = seed p2 s
   \<and> cur_edges (seed p2 (seed p1 s)) = edges p2
   \<and> cur_pageInfo (seed p2 (seed p1 s)) = pageInfo p2
   \<and> lastAppendedCursor (seed p2 (seed p1 s)) = endCursor (pageInfo p2)
   \<and> fetcher_state (seed p2 (seed p1 s)) = fetcher_state s
   \<and> fetcher_data (seed p2 (seed p1 s)) = fetcher_data s
   \<and> fetcher_loads (seed p2 (seed p1 s)) = fetcher_loads s
   \<and> (seed p2 (seed p1 s) = fresh p2) =
       (fetcher_state s = Idle \<and> fetcher_data s = None \<and> fetcher_loads s = [])"
proof -
  have twice: "seed p2 (seed p1 s) = seed p2 s"
    by (simp add: seed_def)
  have same: "(seed p2 s = fresh p2) =
       (fetcher_state s = Idle \<and> fetcher_data s = None \<and> fetcher_loads s = [])"
    by (cases s) (auto simp add: seed_def fresh_def mount_def)
  show ?thesis
    unfolding twice using same by (simp add: seed_fields)
qed

theorem reseed_amended_witness:
  "seed (page [item ''y''] False None) (seed (page [item ''x''] True (Some ''d1''))
      (fresh (page [item ''a''] True (Some ''c1'')))) = fresh (page [item ''y''] False None)
   \<and> cur_edges (seed (page [item ''y''] False None) (seed (page [item ''x''] True (Some ''d1''))
      (fresh (page [item ''a''] True (Some ''c1''))))) = [item ''y'']"
  using reseed_amended
    [where ?p2.0 = "page [item ''y''] False None"
       and ?p1.0 = "page [item ''x''] True (Some ''d1'')"
       and s = "fresh (page [item ''a''] True (Some ''c1''))"]
  by (simp add: example_defs)

section \<open>The sentinel\<close>


lemma onSentinelVisible_cases:
  "onSentinelVisible s =
     (case endCursor (cur_pageInfo s) of
        None \<Rightarrow> s
      | Some c \<Rightarrow>
          if fetcher_state s = Idle \<and> hasNextPage (cur_pageInfo s) \<and> c \<noteq> []
          then fetcher_load c s else s)"
  by (simp add: onSentinelVisible_def observer_installed_def observer_callback_def capture_def
      split: option.splits)

lemma onSentinelVisible_idem:
  "onSentinelVisible (onSentinelVisible s) = onSentinelVisible s"
  by (simp add: onSentinelVisible_cases fetcher_load_def split: option.splits)

lemma onSentinelVisible_repeat:
  "(onSentinelVisible ^^ Suc n) s = onSentinelVisible s"
  by (induction n) (simp_all add: onSentinelVisible_idem)

lemma no_observer_no_load:
  "\<not> observer_installed s \<Longrightarrow> (onSentinelVisible ^^ n) s = s"
  by (induction n) (simp_all add: onSentinelVisible_def)



lemma observer_callback_eligible:
  "captured_state k = Idle \<Longrightarrow> hasNextPage (captured_pageInfo k) \<Longrightarrow>
     endCursor (captured_pageInfo k) = Some x \<Longrightarrow> x \<noteq> [] \<Longrightarrow>
     observer_callback True k s = fetcher_load x s"
  by (simp add: observer_callback_def)











section \<open>Failed and stale loads\<close>





text \<open>
  C7, as the specification states it: the result of a load that was in flight when
  \<open>seed(P)\<close> ran is discarded whenever it no longer matches the freshly seeded state, so
  a stale page never reaches the freshly seeded items. The guard of line 139 compares
  the \<open>endCursor\<close> of the arriving page with the ref and nothing else: after a seed with
  \<open>[a, b]\<close> and cursor \<open>c1\<close>, a load of \<open>c1\<close> in flight and a new seed with \<open>[x]\<close>
  and cursor \<open>d1\<close>, the answer \<open>[c, d]\<close> with cursor \<open>c2\<close> to the old load is appended
  to \<open>[x]\<close>.
\<close>

theorem stale_after_seed_counterexample:
  "fetcher_state (onSentinelVisible (fresh (page [item ''a'', item ''b''] True (Some ''c1'')))) = Loading
   \<and> fetcher_loads (onSentinelVisible (fresh (page [item ''a'', item ''b''] True (Some ''c1'')))) = [''c1'']
   \<and> cur_edges (seed (page [item ''x''] True (Some ''d1''))
        (onSentinelVisible (fresh (page [item ''a'', item ''b''] True (Some ''c1''))))) = [item ''x'']
   \<and> cur_edges (onPageArrived (page [item ''c'', item ''d''] True (Some ''c2''))
        (seed (page [item ''x''] True (Some ''d1''))
          (onSentinelVisible (fresh (page [item ''a'', item ''b''] True (Some ''c1'')))))) =
       [item ''x'', item ''c'', item ''d'']
   \<and> endCursor (cur_pageInfo (onPageArrived (page [item ''c'', item ''d''] True (Some ''c2''))
        (seed (page [item ''x''] True (Some ''d1''))
          (onSentinelVisible (fresh (page [item ''a'', item ''b''] True (Some ''c1''))))))) =
       Some ''c2''"
  by (simp add: example_defs)

text \<open>
  C7, amended: when \<open>seed(P)\<close> runs while a load is in flight, the load stays in flight
  and its eventual result is checked against the ref the seed has set, and against
  nothing else: it is discarded (items, \<open>hasNextPage\<close>, cursor unchanged) exactly when
  its \<open>endCursor\<close> equals that of \<open>P\<close>; otherwise its items are appended to those of
  \<open>P\<close> and its page info replaces that of \<open>P\<close>.
\<close>

theorem stale_after_seed_amended:
  "fetcher_state (seed p s) = fetcher_state s
   \<and> cur_edges (onPageArrived r (seed p s)) =
       (if endCursor (pageInfo r) = endCursor (pageInfo p) then edges p else edges p @ edges r)
   \<and> cur_pageInfo (onPageArrived r (seed p s)) =
       (if endCursor (pageInfo r) = endCursor (pageInfo p) then pageInfo p else pageInfo r)
   \<and> lastAppendedCursor (onPageArrived r (seed p s)) = endCursor (pageInfo r)"
  by (auto simp add: onPageArrived_edges onPageArrived_pageInfo onPageArrived_last seed_fields)

theorem stale_after_seed_amended_witness:
  "cur_edges (onPageArrived (page [item ''c''] True (Some ''d1''))
        (seed (page [item ''x''] True (Some ''d1''))
          (onSentinelVisible (fresh (page [item ''a''] True (Some ''c1'')))))) = [item ''x'']
   \<and> cur_edges (onPageArrived (page [item ''c''] True (Some ''c2''))
        (seed (page [item ''x''] True (Some ''d1''))
          (onSentinelVisible (fresh (page [item ''a''] True (Some ''c1'')))))) = [item ''x'', item ''c'']"
  using stale_after_seed_amended
    [where r = "page [item ''c''] True (Some ''d1'')"
       and p = "page [item ''x''] True (Some ''d1'')"
       and s = "onSentinelVisible (fresh (page [item ''a''] True (Some ''c1'')))"]
    stale_after_seed_amended
    [where r = "page [item ''c''] True (Some ''c2'')"
       and p = "page [item ''x''] True (Some ''d1'')"
       and s = "onSentinelVisible (fresh (page [item ''a''] True (Some ''c1'')))"]
  by (simp add: page_def)

text \<open>
  C8: a page that arrives is placed after the items already there, which keep their
  places, and its items keep the order the page has them in; after a seed followed by
  pages that are all merged, the items are those of the seed page, then those of each
  page in the order of arrival.
\<close>

theorem order_preservation:
  "cur_edges (onPageArrived p s) =
     cur_edges s @ (if lastAppendedCursor s = endCursor (pageInfo p) then [] else edges p)
   \<and> (all_merged ps (seed p0 s) \<longrightarrow>
        cur_edges (arrive_all ps (seed p0 s)) = edges p0 @ concat (map edges ps))"
  using arrive_all_edges [of ps "seed p0 s"]
  by (simp add: onPageArrived_edges seed_fields)

theorem order_preservation_witness:
  "all_merged [page [item ''c'', item ''d''] True (Some ''c2''), page [item ''e''] False None]
     (seed (page [item ''a'', item ''b''] True (Some ''c1'')) (mount (page [] False None)))
   \<and> cur_edges (arrive_all
        [page [item ''c'', item ''d''] True (Some ''c2''), page [item ''e''] False None]
        (seed (page [item ''a'', item ''b''] True (Some ''c1'')) (mount (page [] False None)))) =
       [item ''a'', item ''b'', item ''c'', item ''d'', item ''e'']"
proof -
  have h: "all_merged [page [item ''c'', item ''d''] True (Some ''c2''), page [item ''e''] False None]
     (seed (page [item ''a'', item ''b''] True (Some ''c1'')) (mount (page [] False None)))"
    by (simp add: example_defs)
  show ?thesis
    using h order_preservation
      [where ps = "[page [item ''c'', item ''d''] True (Some ''c2''), page [item ''e''] False None]"
         and ?p0.0 = "page [item ''a'', item ''b''] True (Some ''c1'')"
         and s = "mount (page [] False None)"]
    by (simp add: page_def)
qed

section \<open>Pages off the wire\<close>

lemma merge_effect_raw_typed:
  "merge_effect_raw (map_option (\<lambda>d. raw_of (products d)) (fetcher_data s)) s = Inr (merge_effect s)"
  by (cases "fetcher_data s") (simp_all add: merge_effect_raw_def merge_effect_def raw_of_def Let_def)

text \<open>
  C9, as the specification states it: a fetched page that lacks a required field, such as
  its items list, is treated exactly like a failed fetch and no field of the pagination
  state is mutated. Neither the loader nor the merge effect looks for the items list:
  the loader returns a page without \<open>edges\<close> where a failed fetch has it throw, and
  the merge effect has assigned the ref (line 143) when the spread of line 141 throws,
  where without a page it returns at line 136 with the state as it was.
\<close>

theorem malformed_page_counterexample:
  "loader_result
     (Some \<lparr>data = Some \<lparr>query_products = Some \<lparr>raw_edges = None,
         raw_pageInfo = Some \<lparr>hasNextPage = True, endCursor = Some ''c2''\<rparr>\<rparr>\<rparr>,
      errors = None\<rparr>) =
     Inr \<lparr>raw_edges = None, raw_pageInfo = Some \<lparr>hasNextPage = True, endCursor = Some ''c2''\<rparr>\<rparr>
   \<and> merge_effect_raw
        (Some \<lparr>raw_edges = None, raw_pageInfo = Some \<lparr>hasNextPage = True, endCursor = Some ''c2''\<rparr>\<rparr>)
        (fresh (page [item ''a''] True (Some ''c1''))) =
       Inl (TypeError, (fresh (page [item ''a''] True (Some ''c1'')))\<lparr>lastAppendedCursor := Some ''c2''\<rparr>)
   \<and> merge_effect_raw None (fresh (page [item ''a''] True (Some ''c1''))) =
       Inr (fresh (page [item ''a''] True (Some ''c1'')))
   \<and> lastAppendedCursor (fresh (page [item ''a''] True (Some ''c1''))) = Some ''c1''"
  by (simp add: loader_result_def payload_products_def merge_effect_raw_def fresh_def
      mount_def seed_def page_def Let_def)

text \<open>
  C9, amended: a fetch result that reports errors, or that has no \<open>data\<close> or no
  \<open>products\<close>, is a failed fetch: the loader throws (status 500 or 502) and no page
  reaches the merge effect, which without a page mutates nothing. Any page that is
  present is handed on by the loader as it is. No page that lacks its items list or its
  page info changes the items, \<open>hasNextPage\<close> or the cursor, so none is merged in
  part: without page info the merge effect throws before it has changed anything;
  with page info and without items the page is discarded, the state unchanged, if its
  \<open>endCursor\<close> equals the ref, and otherwise the effect's update throws. A page that
  has both is merged whole or discarded whole.
\<close>

theorem malformed_page_amended:
  "(errors payload = Some (Some e # es) \<longrightarrow>
      loader_result (Some payload) = Inl (ThrownResponse (Response
        (case message e of Some m \<Rightarrow> m | None \<Rightarrow> ''Failed to load products'') 500)))
   \<and> (errors payload = Some (None # es) \<longrightarrow>
      loader_result (Some payload) = Inl (ThrownResponse (Response ''Failed to load products'' 500)))
   \<and> ((errors payload = None \<or> errors payload = Some []) \<and> payload_products payload = None \<longrightarrow>
      loader_result (Some payload) =
        Inl (ThrownResponse (Response ''No data returned from Shopify'' 502)))
   \<and> ((errors payload = None \<or> errors payload = Some []) \<and> payload_products payload = Some rc \<longrightarrow>
      loader_result (Some payload) = Inr rc)
   \<and> merge_effect_raw None s = Inr s
   \<and> (raw_pageInfo rc = None \<longrightarrow> merge_effect_raw (Some rc) s = Inl (TypeError, s))
   \<and> (raw_pageInfo rc = Some pinfo \<and> raw_edges rc = None \<longrightarrow>
      (if lastAppendedCursor s = endCursor pinfo then merge_effect_raw (Some rc) s = Inr s
       else isl (merge_effect_raw (Some rc) s)))
   \<and> (raw_pageInfo rc = None \<or> raw_edges rc = None \<longrightarrow>
      (case merge_effect_raw (Some rc) s of
         Inl (err, s') \<Rightarrow>
           cur_edges s' = cur_edges s \<and> cur_pageInfo s' = cur_pageInfo s
           \<and> fetcher_state s' = fetcher_state s \<and> fetcher_data s' = fetcher_data s
           \<and> fetcher_loads s' = fetcher_loads s
       | Inr s' \<Rightarrow> s' = s))
   \<and> merge_effect_raw (Some (raw_of p)) s =
       Inr (if lastAppendedCursor s = endCursor (pageInfo p) then s
            else s\<lparr>cur_edges := cur_edges s @ edges p, cur_pageInfo := pageInfo p,
                   lastAppendedCursor := endCursor (pageInfo p)\<rparr>)"
proof -
  have reported: "errors payload = Some (Some e # es) \<longrightarrow>
      loader_result (Some payload) = Inl (ThrownResponse (Response
        (case message e of Some m \<Rightarrow> m | None \<Rightarrow> ''Failed to load products'') 500))"
    by (simp add: loader_result_def)
  have null_entry: "errors payload = Some (None # es) \<longrightarrow>
      loader_result (Some payload) = Inl (ThrownResponse (Response ''Failed to load products'' 500))"
    by (simp add: loader_result_def)
  have absent: "(errors payload = None \<or> errors payload = Some []) \<and> payload_products payload = None \<longrightarrow>
      loader_result (Some payload) =
        Inl (ThrownResponse (Response ''No data returned from Shopify'' 502))"
    by (intro impI) (elim conjE disjE; simp add: loader_result_def)
  have present: "(errors payload = None \<or> errors payload = Some []) \<and> payload_products payload = Some rc \<longrightarrow>
      loader_result (Some payload) = Inr rc"
    by (intro impI) (elim conjE disjE; simp add: loader_result_def)
  have no_page: "merge_effect_raw None s = Inr s"
    by (simp add: merge_effect_raw_def)
  have no_info: "raw_pageInfo rc = None \<longrightarrow> merge_effect_raw (Some rc) s = Inl (TypeError, s)"
    by (simp add: merge_effect_raw_def)
  have no_items: "raw_pageInfo rc = Some pinfo \<and> raw_edges rc = None \<longrightarrow>
      (if lastAppendedCursor s = endCursor pinfo then merge_effect_raw (Some rc) s = Inr s
       else isl (merge_effect_raw (Some rc) s))"
    by (simp add: merge_effect_raw_def Let_def)
  have untouched: "raw_pageInfo rc = None \<or> raw_edges rc = None \<longrightarrow>
      (case merge_effect_raw (Some rc) s of
         Inl (err, s') \<Rightarrow>
           cur_edges s' = cur_edges s \<and> cur_pageInfo s' = cur_pageInfo s
           \<and> fetcher_state s' = fetcher_state s \<and> fetcher_data s' = fetcher_data s
           \<and> fetcher_loads s' = fetcher_loads s
       | Inr s' \<Rightarrow> s' = s)"
    by (cases "raw_pageInfo rc") (auto simp add: merge_effect_raw_def Let_def)
  have whole: "merge_effect_raw (Some (raw_of p)) s =
       Inr (if lastAppendedCursor s = endCursor (pageInfo p) then s
            else s\<lparr>cur_edges := cur_edges s @ edges p, cur_pageInfo := pageInfo p,
                   lastAppendedCursor := endCursor (pageInfo p)\<rparr>)"
    by (simp add: merge_effect_raw_def raw_of_def Let_def)
  from reported null_entry absent present no_page no_info no_items untouched whole
  show ?thesis
    by blast
qed

theorem malformed_page_amended_witness:
  "loader_result (Some \<lparr>data = None, errors = Some [Some \<lparr>message = Some ''Throttled''\<rparr>]\<rparr>) =
     Inl (ThrownResponse (Response ''Throttled'' 500))
   \<and> loader_result (Some \<lparr>data = None, errors = Some [Some \<lparr>message = None\<rparr>]\<rparr>) =
     Inl (ThrownResponse (Response ''Failed to load products'' 500))
   \<and> loader_result (Some \<lparr>data = None, errors = Some [None]\<rparr>) =
     Inl (ThrownResponse (Response ''Failed to load products'' 500))
   \<and> loader_result (Some \<lparr>data = Some \<lparr>query_products = None\<rparr>, errors = Some []\<rparr>) =
     Inl (ThrownResponse (Response ''No data returned from Shopify'' 502))
   \<and> loader_result
       (Some \<lparr>data = Some \<lparr>query_products = Some (raw_of (page [item ''b''] False None))\<rparr>,
              errors = None\<rparr>) =
     Inr (raw_of (page [item ''b''] False None))
   \<and> merge_effect_raw (Some (raw_of (page [item ''b''] False None)))
       (fresh (page [item ''a''] True (Some ''c1''))) =
     Inr ((fresh (page [item ''a''] True (Some ''c1'')))
            \<lparr>cur_edges := [item ''a'', item ''b''],
             cur_pageInfo := \<lparr>hasNextPage = False, endCursor = None\<rparr>,
             lastAppendedCursor := None\<rparr>)
   \<and> merge_effect_raw (Some \<lparr>raw_edges = Some [item ''b''], raw_pageInfo = None\<rparr>)
       (fresh (page [item ''a''] True (Some ''c1''))) =
     Inl (TypeError, fresh (page [item ''a''] True (Some ''c1'')))
   \<and> merge_effect_raw
       (Some \<lparr>raw_edges = None, raw_pageInfo = Some \<lparr>hasNextPage = True, endCursor = Some ''c1''\<rparr>\<rparr>)
       (fresh (page [item ''a''] True (Some ''c1''))) =
     Inr (fresh (page [item ''a''] True (Some ''c1'')))"
  using
    malformed_page_amended
      [where payload = "\<lparr>data = None, errors = Some [Some \<lparr>message = Some ''Throttled''\<rparr>]\<rparr>"
         and e = "\<lparr>message = Some ''Throttled''\<rparr>" and es = "[]"]
    malformed_page_amended
      [where payload = "\<lparr>data = None, errors = Some [Some \<lparr>message = None\<rparr>]\<rparr>"
         and e = "\<lparr>message = None\<rparr>" and es = "[]"]
    malformed_page_amended
      [where payload = "\<lparr>data = None, errors = Some [None]\<rparr>" and es = "[]"]
    malformed_page_amended
      [where payload = "\<lparr>data = Some \<lparr>query_products = None\<rparr>, errors = Some []\<rparr>"]
    malformed_page_amended
      [where payload = "\<lparr>data = Some \<lparr>query_products = Some (raw_of (page [item ''b''] False None))\<rparr>,
                         errors = None\<rparr>"
         and rc = "raw_of (page [item ''b''] False None)"
         and p = "page [item ''b''] False None"
         and s = "fresh (page [item ''a''] True (Some ''c1''))"]
    malformed_page_amended
      [where rc = "\<lparr>raw_edges = Some [item ''b''], raw_pageInfo = None\<rparr>"
         and s = "fresh (page [item ''a''] True (Some ''c1''))"]
    malformed_page_amended
      [where rc = "\<lparr>raw_edges = None, raw_pageInfo = Some \<lparr>hasNextPage = True, endCursor = Some ''c1''\<rparr>\<rparr>"
         and pinfo = "\<lparr>hasNextPage = True, endCursor = Some ''c1''\<rparr>"
         and s = "fresh (page [item ''a''] True (Some ''c1''))"]
  by (simp add: payload_products_def fresh_def mount_def seed_def page_def)

text \<open>
  C10: a state whose cursor is the empty string has no observer installed, its callback
  starts no load, and no number of sentinel events changes it, as for a null cursor
  (lines 147 and 158 test the truthiness of \<open>pageInfo.endCursor\<close>); and the loader
  builds for an empty \<open>after\<close> parameter the variables it builds for an absent one
  (lines 54 and 60).
\<close>

theorem empty_cursor_is_exhaustion:
  "(endCursor (cur_pageInfo s) = Some [] \<longrightarrow>
      \<not> observer_installed s
      \<and> observer_callback b (capture s) t = t
      \<and> (onSentinelVisible ^^ n) s = s
      \<and> fetcher_loads ((onSentinelVisible ^^ n) s) = fetcher_loads s)
   \<and> (endCursor (cur_pageInfo s) = None \<longrightarrow>
      \<not> observer_installed s
      \<and> observer_callback b (capture s) t = t
      \<and> (onSentinelVisible ^^ n) s = s)
   \<and> loader_variables (Some []) = loader_variables None
   \<and> loader_variables (Some []) = \<lparr>first = PAGE_SIZE, after = None\<rparr>"
proof -
  have no_observer: "\<not> truthy (endCursor (cur_pageInfo s)) \<Longrightarrow>
      \<not> observer_installed s \<and> observer_callback b (capture s) t = t
      \<and> (onSentinelVisible ^^ n) s = s"
  proof -
    assume falsy: "\<not> truthy (endCursor (cur_pageInfo s))"
    then have off: "\<not> observer_installed s"
      by (simp add: observer_installed_def)
    from falsy have "observer_callback b (capture s) t = t"
      by (simp add: observer_callback_def capture_def)
    with off show ?thesis
      by (simp add: no_observer_no_load)
  qed
  have vars: "loader_variables (Some []) = loader_variables None
      \<and> loader_variables (Some []) = \<lparr>first = PAGE_SIZE, after = None\<rparr>"
    by (simp add: loader_variables_def)
  from no_observer vars show ?thesis
    by auto
qed

theorem empty_cursor_is_exhaustion_witness:
  "endCursor (cur_pageInfo (fresh (page [item ''a''] True (Some [])))) = Some []
   \<and> hasNextPage (cur_pageInfo (fresh (page [item ''a''] True (Some []))))
   \<and> fetcher_state (fresh (page [item ''a''] True (Some []))) = Idle
   \<and> \<not> observer_installed (fresh (page [item ''a''] True (Some [])))
   \<and> fetcher_loads ((onSentinelVisible ^^ 2) (fresh (page [item ''a''] True (Some [])))) = []
   \<and> fetcher_loads (observer_callback True (capture (fresh (page [item ''a''] True (Some []))))
        (fresh (page [item ''a''] True (Some [])))) = []"
  using empty_cursor_is_exhaustion
    [where s = "fresh (page [item ''a''] True (Some []))" and b = True and n = 2
       and t = "fresh (page [item ''a''] True (Some []))"]
  by (simp add: fresh_def mount_def seed_def page_def)

end
